theory Spec2Isabelle
  imports Main
begin

section \<open>Values of the standard library\<close>

text \<open>
  A \<^verbatim>\<open>datetime.time\<close> is its four fields. Python orders two (naive) times
  lexicographically on (hour, minute, second, microsecond); the model fields of
  \<^verbatim>\<open>TimeField\<close> hold naive times.
\<close>

record pytime =
  hour :: nat
  minute :: nat
  second :: nat
  microsecond :: nat

definition time_le :: "pytime \<Rightarrow> pytime \<Rightarrow> bool" where
  "time_le a b =
     (hour a < hour b \<or> (hour a = hour b \<and>
       (minute a < minute b \<or> (minute a = minute b \<and>
         (second a < second b \<or> (second a = second b \<and>
           microsecond a \<le> microsecond b))))))"

definition time_lt :: "pytime \<Rightarrow> pytime \<Rightarrow> bool" where
  "time_lt a b = (time_le a b \<and> \<not> time_le b a)"

text \<open>
  A \<^verbatim>\<open>datetime.datetime\<close>: a calendar date and a time of day. The method
  \<^verbatim>\<open>.time()\<close> is the field \<open>timepart\<close>. Datetimes are naive here: the settings
  module, which would decide on time zones, is not among the sources.
\<close>

record pydatetime =
  year :: nat
  month :: nat
  day :: nat
  timepart :: pytime

datatype error =
  AttributeError | ValueError | FieldError | ValidationError | IntegrityError

section \<open>The models\<close>

record Room =
  room_id :: nat
  capacity :: nat

record WorkSchedule =
  ws_start_time :: pytime
  ws_end_time :: pytime
  break_start :: pytime
  break_end :: pytime

text \<open>\<open>work_schedule\<close> is a nullable foreign key; \<open>rooms\<close> holds the keys of the
  many-to-many relation.\<close>

record Trainer =
  trainer_id :: nat
  rooms :: "nat list"
  work_schedule :: "WorkSchedule option"

text \<open>
  \<open>trainer\<close> and \<open>group_training_type\<close> are nullable foreign keys, \<open>room\<close> is not.
  \<open>training_type\<close> is a \<^verbatim>\<open>CharField\<close>: its choices are \<^verbatim>\<open>'GT'\<close>, \<^verbatim>\<open>'PT'\<close> and
  \<^verbatim>\<open>'SW'\<close>, and \<^verbatim>\<open>can_book\<close> has a branch for anything else.
\<close>

record Training =
  training_id :: nat
  trainer :: "Trainer option"
  room :: Room
  training_type :: string
  group_training_type :: "nat option"
  start_time :: pytime
  end_time :: pytime

text \<open>A Booking instance; \<open>booking_id\<close> is \<open>None\<close> until it has been saved.\<close>

record Booking =
  booking_id :: "nat option"
  user :: nat
  training :: "Training option"
  booking_time :: "pydatetime option"

text \<open>The tables the availability rules query.\<close>

record db =
  trainings :: "Training list"
  bookings :: "Booking list"

section \<open>Availability of a trainer\<close>

text \<open>\<^verbatim>\<open>WorkSchedule.is_available\<close>\<close>

definition ws_is_available :: "WorkSchedule \<Rightarrow> pytime \<Rightarrow> pytime \<Rightarrow> bool" where
  "ws_is_available self start_t end_t =
     (time_le (ws_start_time self) start_t \<and> time_le end_t (ws_end_time self))"

text \<open>\<^verbatim>\<open>Trainer.is_available\<close>\<close>

definition trainer_is_available :: "Trainer \<Rightarrow> pytime \<Rightarrow> pytime \<Rightarrow> bool" where
  "trainer_is_available self start_t end_t =
     (case work_schedule self of
        None \<Rightarrow> False
      | Some ws \<Rightarrow> ws_is_available ws start_t end_t)"

section \<open>Training.can_book\<close>

text \<open>
  The argument is a \<^verbatim>\<open>time\<close> or a \<^verbatim>\<open>str\<close>; a string goes through
  \<^verbatim>\<open>datetime.fromisoformat(...).time()\<close>. The parser belongs to the standard library
  and is a parameter: \<open>None\<close> stands for its \<^verbatim>\<open>ValueError\<close>.
\<close>

datatype booking_time_arg = TimeObj pytime | IsoStr string

definition as_time ::
  "(string \<Rightarrow> pydatetime option) \<Rightarrow> booking_time_arg \<Rightarrow> error + pytime" where
  "as_time fromisoformat arg =
     (case arg of
        TimeObj t \<Rightarrow> Inr t
      | IsoStr s \<Rightarrow>
          (case fromisoformat s of
             None \<Rightarrow> Inl ValueError
           | Some dt \<Rightarrow> Inr (timepart dt)))"

text \<open>
  The query \<^verbatim>\<open>Booking.objects.filter(training=self,
  booking_time__hour__range=(self.start_time.hour, self.end_time.hour))\<close>: a row
  matches when its foreign key is the key of \<open>self\<close> and the hour of its
  \<open>booking_time\<close> is between the two hours, both included.
\<close>

definition in_hour_range :: "Training \<Rightarrow> Booking \<Rightarrow> bool" where
  "in_hour_range self b =
     (map_option training_id (training b) = Some (training_id self) \<and>
      (case booking_time b of
         None \<Rightarrow> False
       | Some dt \<Rightarrow> hour (start_time self) \<le> hour (timepart dt) \<and>
                   hour (timepart dt) \<le> hour (end_time self)))"

definition bookings_count :: "db \<Rightarrow> Training \<Rightarrow> nat" where
  "bookings_count d self = length (filter (in_hour_range self) (bookings d))"

text \<open>
  The query \<^verbatim>\<open>Training.objects.filter(trainer=self.trainer,
  group_training_type=self.group_training_type, start_time__lte=self.start_time,
  end_time__gte=self.end_time)\<close>. Nothing in it excludes the row of \<open>self\<close>.
\<close>

definition same_group :: "Training \<Rightarrow> Trainer \<Rightarrow> Training \<Rightarrow> bool" where
  "same_group self tr other =
     (map_option trainer_id (trainer other) = Some (trainer_id tr) \<and>
      group_training_type other = group_training_type self \<and>
      time_le (start_time other) (start_time self) \<and>
      time_le (end_time self) (end_time other))"

definition same_group_trainings :: "db \<Rightarrow> Training \<Rightarrow> Trainer \<Rightarrow> Training list" where
  "same_group_trainings d self tr = filter (same_group self tr) (trainings d)"

definition in_break :: "WorkSchedule \<Rightarrow> pytime \<Rightarrow> bool" where
  "in_break ws t = (time_le (break_start ws) t \<and> time_le t (break_end ws))"

text \<open>
  \<^verbatim>\<open>self.trainer.work_schedule\<close> raises \<^verbatim>\<open>AttributeError\<close> when \<open>self.trainer\<close>
  is \<^verbatim>\<open>None\<close>, and so does \<^verbatim>\<open>work_schedule.break_start\<close> when the trainer has no
  schedule. Both happen before the branch on the training type.
\<close>

definition can_book ::
  "(string \<Rightarrow> pydatetime option) \<Rightarrow> db \<Rightarrow> Training \<Rightarrow> booking_time_arg \<Rightarrow> error + bool" where
  "can_book fromisoformat d self arg =
     (case as_time fromisoformat arg of
        Inl e \<Rightarrow> Inl e
      | Inr t \<Rightarrow>
          (let n = bookings_count d self in
           case trainer self of
             None \<Rightarrow> Inl AttributeError
           | Some tr \<Rightarrow>
               (case work_schedule tr of
                  None \<Rightarrow> Inl AttributeError
                | Some ws \<Rightarrow>
                    if in_break ws t then Inr False
                    else if training_type self = ''GT'' then
                      (if \<not> trainer_is_available tr (start_time self) (end_time self)
                       then Inr False
                       else if same_group_trainings d self tr = [] then Inr False
                       else Inr (n < capacity (room self)))
                    else if training_type self = ''PT'' then
                      (if 0 < n \<or> trainer self = None then Inr False
                       else if \<not> trainer_is_available tr (start_time self) (end_time self)
                       then Inr False
                       else Inr (n < capacity (room self)))
                    else if training_type self = ''SW'' then
                      Inr (n < capacity (room self))
                    else Inr (n < capacity (room self)))))"

text \<open>
  The sibling of the specification, for comparison with the query above: a matching
  row \<^emph>\<open>other\<close> than \<open>self\<close>.
\<close>

definition other_same_group :: "db \<Rightarrow> Training \<Rightarrow> Trainer \<Rightarrow> Training list" where
  "other_same_group d self tr =
     filter (\<lambda>other. training_id other \<noteq> training_id self \<and> same_group self tr other)
       (trainings d)"

text \<open>\<^verbatim>\<open>Training.clean\<close>. A model instance is truthy, so \<^verbatim>\<open>not x\<close> on a nullable
  foreign key asks whether it is \<^verbatim>\<open>None\<close>; membership in \<^verbatim>\<open>rooms.all()\<close> compares
  primary keys.\<close>

definition training_clean :: "Training \<Rightarrow> error + unit" where
  "training_clean self =
     (if training_type self = ''GT'' \<and> group_training_type self = None
      then Inl ValidationError
      else if training_type self \<noteq> ''GT'' \<and> group_training_type self \<noteq> None
      then Inl ValidationError
      else if (case trainer self of
                 None \<Rightarrow> False
               | Some tr \<Rightarrow> room_id (room self) \<notin> set (rooms tr))
      then Inl ValidationError
      else if trainer self \<noteq> None \<and> training_type self = ''SW''
      then Inl ValidationError
      else Inr ())"

section \<open>Training.get_available_trainings\<close>

text \<open>
  The keyword \<^verbatim>\<open>bookings__booking_time__range\<close> and \<^verbatim>\<open>Count('bookings')\<close> start at
  a name of the model \<^verbatim>\<open>Training\<close>. The names a lookup can start at are the model's
  fields (with the implicit key) and its reverse relations; the one reverse relation,
  from \<^verbatim>\<open>Booking.training\<close>, is declared with
  \<^verbatim>\<open>related_name='training_bookings'\<close>. The method \<^verbatim>\<open>filter\<close> resolves the names when
  it is called and raises \<^verbatim>\<open>FieldError\<close> for one it does not find.
\<close>

definition training_lookup_names :: "string list" where
  "training_lookup_names =
     [''id'', ''pk'', ''trainer'', ''trainer_id'', ''room'', ''room_id'', ''training_type'',
      ''group_training_type'', ''group_training_type_id'', ''start_time'', ''end_time'',
      ''training_bookings'']"

definition resolve_lookup :: "string \<Rightarrow> error + string" where
  "resolve_lookup name =
     (if name \<in> set training_lookup_names then Inr name else Inl FieldError)"

text \<open>
  The rows the query describes: \<open>start_time \<ge> start_time\<close> of the argument, no booking
  of the training with \<open>booking_time\<close> in the range \<open>(start_time, end_time)\<close>, and fewer
  bookings than the room holds. The range compares a timestamp column with two
  time-of-day columns; what that comparison yields is the database's business and is
  the parameter \<open>in_range\<close>.
\<close>

definition booked_in_range ::
  "(pydatetime \<Rightarrow> pytime \<Rightarrow> pytime \<Rightarrow> bool) \<Rightarrow> db \<Rightarrow> Training \<Rightarrow> bool" where
  "booked_in_range in_range d t =
     list_ex (\<lambda>b. map_option training_id (training b) = Some (training_id t) \<and>
                  (case booking_time b of
                     None \<Rightarrow> False
                   | Some dt \<Rightarrow> in_range dt (start_time t) (end_time t)))
       (bookings d)"

definition count_bookings :: "db \<Rightarrow> Training \<Rightarrow> nat" where
  "count_bookings d t =
     length (filter (\<lambda>b. map_option training_id (training b) = Some (training_id t))
               (bookings d))"

definition available_rows ::
  "(pydatetime \<Rightarrow> pytime \<Rightarrow> pytime \<Rightarrow> bool) \<Rightarrow> db \<Rightarrow> pytime \<Rightarrow> Training list" where
  "available_rows in_range d start_t =
     filter (\<lambda>t. time_le start_t (start_time t) \<and>
                 \<not> booked_in_range in_range d t \<and>
                 count_bookings d t < capacity (room t))
       (trainings d)"

definition get_available_trainings ::
  "(pydatetime \<Rightarrow> pytime \<Rightarrow> pytime \<Rightarrow> bool) \<Rightarrow> db \<Rightarrow> pytime \<Rightarrow> error + Training list" where
  "get_available_trainings in_range d start_t =
     (case resolve_lookup ''bookings'' of
        Inl e \<Rightarrow> Inl e
      | Inr _ \<Rightarrow> Inr (available_rows in_range d start_t))"

section \<open>Validation of a booking\<close>

text \<open>
  \<^verbatim>\<open>str\<close> of a naive datetime: \<^verbatim>\<open>YYYY-MM-DD HH:MM:SS\<close>, followed by \<^verbatim>\<open>.ffffff\<close> when
  the microseconds are not zero. The fields of a Python datetime are within their
  ranges, so that each has the digits written here.
\<close>

definition digit :: "nat \<Rightarrow> char" where
  "digit n = char_of (48 + n mod 10)"

definition pad2 :: "nat \<Rightarrow> string" where
  "pad2 n = [digit (n div 10), digit n]"

definition pad4 :: "nat \<Rightarrow> string" where
  "pad4 n = [digit (n div 1000), digit (n div 100), digit (n div 10), digit n]"

definition pad6 :: "nat \<Rightarrow> string" where
  "pad6 n = [digit (n div 100000), digit (n div 10000), digit (n div 1000),
             digit (n div 100), digit (n div 10), digit n]"

definition str_datetime :: "pydatetime \<Rightarrow> string" where
  "str_datetime dt =
     pad4 (year dt) @ ''-'' @ pad2 (month dt) @ ''-'' @ pad2 (day dt) @ '' '' @
     pad2 (hour (timepart dt)) @ '':'' @ pad2 (minute (timepart dt)) @ '':'' @
     pad2 (second (timepart dt)) @
     (if microsecond (timepart dt) = 0 then [] else ''.'' @ pad6 (microsecond (timepart dt)))"

text \<open>
  \<^verbatim>\<open>Booking.clean\<close>. \<^verbatim>\<open>super().clean()\<close> does nothing. A datetime is truthy, a string
  is truthy when it is not empty, and \<^verbatim>\<open>and\<close> does not evaluate its right side when
  the left one is falsy. \<open>training\<close> is a nullable foreign key: \<^verbatim>\<open>self.training.can_book\<close>
  raises \<^verbatim>\<open>AttributeError\<close> on \<^verbatim>\<open>None\<close>.
\<close>

definition booking_clean ::
  "(string \<Rightarrow> pydatetime option) \<Rightarrow> db \<Rightarrow> Booking \<Rightarrow> error + unit" where
  "booking_clean fromisoformat d self =
     (let booking_time_str = map_option str_datetime (booking_time self) in
      case booking_time_str of
        None \<Rightarrow> Inr ()
      | Some s \<Rightarrow>
          if s = [] then Inr ()
          else
            (case training self of
               None \<Rightarrow> Inl AttributeError
             | Some t \<Rightarrow>
                 (case can_book fromisoformat d t (IsoStr s) of
                    Inl e \<Rightarrow> Inl e
                  | Inr ok \<Rightarrow> if \<not> ok then Inl ValidationError else Inr ())))"

text \<open>The receiver \<^verbatim>\<open>check_booking_time\<close> of \<^verbatim>\<open>pre_save\<close>, with the same body.\<close>

definition check_booking_time ::
  "(string \<Rightarrow> pydatetime option) \<Rightarrow> db \<Rightarrow> Booking \<Rightarrow> error + unit" where
  "check_booking_time fromisoformat d instance =
     (let booking_time_str = map_option str_datetime (booking_time instance) in
      case booking_time_str of
        None \<Rightarrow> Inr ()
      | Some s \<Rightarrow>
          if s = [] then Inr ()
          else
            (case training instance of
               None \<Rightarrow> Inl AttributeError
             | Some t \<Rightarrow>
                 (case can_book fromisoformat d t (IsoStr s) of
                    Inl e \<Rightarrow> Inl e
                  | Inr ok \<Rightarrow> if \<not> ok then Inl ValidationError else Inr ())))"

section \<open>The store\<close>

text \<open>
  Modelled from the spec: the write path of the store, that is \<^verbatim>\<open>Model.save\<close>,
  \<^verbatim>\<open>Model.delete\<close> and the database tables that the migrations of the repository
  create; none of it is among the sources. The specification asks of the store that
  uniqueness constraints and check constraints are enforced at write time, that
  deleting a Training deletes its Bookings, and that the pre-save guard runs before a
  Booking is written. The constraints themselves are the ones the models declare:
  \<^verbatim>\<open>unique_booking_per_user\<close> on \<open>(user, training)\<close>, \<open>start_time < end_time\<close> on a
  Training, and a \<open>booking_time\<close> column that is not nullable. As in SQL, a row whose
  \<open>training\<close> is null conflicts with no other row. A booking row refers to its
  training by the key, which is all that is read of \<open>training\<close> in a stored row.
\<close>

text \<open>The pair that \<^verbatim>\<open>unique_booking_per_user\<close> is declared on, as the table holds
  it.\<close>

definition booking_key :: "Booking \<Rightarrow> nat \<times> nat option" where
  "booking_key b = (user b, map_option training_id (training b))"

text \<open>Modelled from the spec: the check of the uniqueness constraint at write time,
  done by the database, which is absent from the sources.\<close>

definition unique_conflict :: "Booking list \<Rightarrow> Booking \<Rightarrow> bool" where
  "unique_conflict rows b =
     (training b \<noteq> None \<and> list_ex (\<lambda>r. booking_key r = booking_key b) rows)"

text \<open>Modelled from the spec: the key the database gives a new row.\<close>

definition row_id :: "Booking \<Rightarrow> nat" where
  "row_id r = (case booking_id r of None \<Rightarrow> 0 | Some i \<Rightarrow> i)"

definition fresh_id :: "Booking list \<Rightarrow> nat" where
  "fresh_id rows = Suc (fold max (map row_id rows) 0)"

text \<open>Modelled from the spec: saving a Booking (\<^verbatim>\<open>Model.save\<close>, absent from the
  sources). The guard runs first; then the row with the instance's key is updated or,
  when there is none, a row is inserted; the constraints are checked against the other
  rows.\<close>

definition save_booking ::
  "(string \<Rightarrow> pydatetime option) \<Rightarrow> db \<Rightarrow> Booking \<Rightarrow> error + db" where
  "save_booking fromisoformat d b =
     (case check_booking_time fromisoformat d b of
        Inl e \<Rightarrow> Inl e
      | Inr _ \<Rightarrow>
          (case booking_time b of
             None \<Rightarrow> Inl IntegrityError
           | Some _ \<Rightarrow>
               (let others = filter (\<lambda>r. booking_id r \<noteq> booking_id b) (bookings d);
                    i = (case booking_id b of None \<Rightarrow> fresh_id (bookings d) | Some j \<Rightarrow> j)
                in if unique_conflict others b then Inl IntegrityError
                   else Inr (d\<lparr>bookings := others @ [b\<lparr>booking_id := Some i\<rparr>]\<rparr>))))"

text \<open>Modelled from the spec: cancelling a Booking (\<^verbatim>\<open>Model.delete\<close>, absent from the
  sources).\<close>

definition delete_booking :: "db \<Rightarrow> nat \<Rightarrow> db" where
  "delete_booking d i = d\<lparr>bookings := filter (\<lambda>r. booking_id r \<noteq> Some i) (bookings d)\<rparr>"

text \<open>Modelled from the spec: saving a Training (\<^verbatim>\<open>Model.save\<close>, absent from the
  sources), with the check constraint \<open>start_time < end_time\<close> that the model
  declares.\<close>

definition save_training :: "db \<Rightarrow> Training \<Rightarrow> error + db" where
  "save_training d t =
     (if \<not> time_lt (start_time t) (end_time t) then Inl IntegrityError
      else Inr (d\<lparr>trainings :=
                    filter (\<lambda>r. training_id r \<noteq> training_id t) (trainings d) @ [t]\<rparr>))"

text \<open>Modelled from the spec: deleting a Training (\<^verbatim>\<open>Model.delete\<close>, absent from the
  sources), which cascades to its Bookings.\<close>

definition delete_training :: "db \<Rightarrow> nat \<Rightarrow> db" where
  "delete_training d i =
     d\<lparr>trainings := filter (\<lambda>r. training_id r \<noteq> i) (trainings d),
       bookings := filter (\<lambda>r. map_option training_id (training r) \<noteq> Some i) (bookings d)\<rparr>"

text \<open>Modelled from the spec: the states the store can be in. It starts empty and
  changes by these four writes, which stand for the write path that is absent from
  the sources.\<close>

inductive reachable :: "(string \<Rightarrow> pydatetime option) \<Rightarrow> db \<Rightarrow> bool"
  for fromisoformat :: "string \<Rightarrow> pydatetime option" where
  empty: "reachable fromisoformat \<lparr>trainings = [], bookings = []\<rparr>"
| booking_saved:
    "reachable fromisoformat d \<Longrightarrow> save_booking fromisoformat d b = Inr d' \<Longrightarrow>
     reachable fromisoformat d'"
| booking_deleted:
    "reachable fromisoformat d \<Longrightarrow> reachable fromisoformat (delete_booking d i)"
| training_saved:
    "reachable fromisoformat d \<Longrightarrow> save_training d t = Inr d' \<Longrightarrow>
     reachable fromisoformat d'"
| training_deleted:
    "reachable fromisoformat d \<Longrightarrow> reachable fromisoformat (delete_training d i)"

text \<open>What every write keeps: the pairs \<open>(user, training)\<close> of the rows are pairwise
  different, and every row has a training and a key.\<close>

definition store_inv :: "db \<Rightarrow> bool" where
  "store_inv d =
     (distinct (map booking_key (bookings d)) \<and>
      list_all (\<lambda>r. training r \<noteq> None \<and> booking_id r \<noteq> None) (bookings d))"

section \<open>Example data\<close>

text \<open>\<^verbatim>\<open>time(h, m)\<close>\<close>

definition hm :: "nat \<Rightarrow> nat \<Rightarrow> pytime" where
  "hm h m = \<lparr>hour = h, minute = m, second = 0, microsecond = 0\<rparr>"

text \<open>The scenario of the specification: work from 08:00 to 17:00 with a break from
  12:00 to 13:00, one trainer, a room for one, a session from 10:00 to 11:00.\<close>

definition ex_schedule :: WorkSchedule where
  "ex_schedule = \<lparr>ws_start_time = hm 8 0, ws_end_time = hm 17 0,
                  break_start = hm 12 0, break_end = hm 13 0\<rparr>"

definition ex_trainer :: Trainer where
  "ex_trainer = \<lparr>trainer_id = 1, rooms = [1], work_schedule = Some ex_schedule\<rparr>"

definition ex_room :: Room where
  "ex_room = \<lparr>room_id = 1, capacity = 1\<rparr>"

definition ex_personal :: Training where
  "ex_personal = \<lparr>training_id = 1, trainer = Some ex_trainer, room = ex_room,
                  training_type = ''PT'', group_training_type = None,
                  start_time = hm 10 0, end_time = hm 11 0\<rparr>"

definition ex_group :: Training where
  "ex_group = \<lparr>training_id = 2, trainer = Some ex_trainer, room = ex_room,
               training_type = ''GT'', group_training_type = Some 7,
               start_time = hm 10 0, end_time = hm 11 0\<rparr>"

text \<open>A free session has no trainer (\<^verbatim>\<open>Training.clean\<close> refuses one).\<close>

definition ex_free :: Training where
  "ex_free = \<lparr>training_id = 3, trainer = None, room = \<lparr>room_id = 2, capacity = 2\<rparr>,
              training_type = ''SW'', group_training_type = None,
              start_time = hm 10 0, end_time = hm 11 0\<rparr>"

text \<open>A personal session nobody has been assigned to yet.\<close>

definition ex_personal_no_trainer :: Training where
  "ex_personal_no_trainer = ex_personal\<lparr>training_id := 4, trainer := None\<rparr>"

text \<open>The profile that the \<^verbatim>\<open>post_save\<close> hook creates for a user with the trainer
  role has no schedule yet.\<close>

definition ex_new_trainer :: Trainer where
  "ex_new_trainer = \<lparr>trainer_id = 2, rooms = [1], work_schedule = None\<rparr>"

definition ex_personal_no_schedule :: Training where
  "ex_personal_no_schedule = ex_personal\<lparr>training_id := 5, trainer := Some ex_new_trainer\<rparr>"

definition ex_db :: db where
  "ex_db = \<lparr>trainings = [ex_personal, ex_group, ex_free, ex_personal_no_trainer,
                           ex_personal_no_schedule],
            bookings = []\<rparr>"

text \<open>A group session in a hall for two, a client who books it at 10:30 on the first
  of May, and the store before and after that booking. The parser of the example
  reads back the one string that \<^verbatim>\<open>str\<close> writes for that moment.\<close>

definition ex_hall :: Room where
  "ex_hall = \<lparr>room_id = 3, capacity = 2\<rparr>"

definition ex_group_hall :: Training where
  "ex_group_hall = ex_group\<lparr>training_id := 6, room := ex_hall\<rparr>"

definition ex_when :: pydatetime where
  "ex_when = \<lparr>year = 2024, month = 5, day = 1, timepart = hm 10 30\<rparr>"

definition ex_fromisoformat :: "string \<Rightarrow> pydatetime option" where
  "ex_fromisoformat = map_of [(str_datetime ex_when, ex_when)]"

definition ex_booking :: Booking where
  "ex_booking = \<lparr>booking_id = None, user = 1, training = Some ex_group_hall,
                 booking_time = Some ex_when\<rparr>"

definition ex_db_hall :: db where
  "ex_db_hall = \<lparr>trainings = [ex_group_hall], bookings = []\<rparr>"

definition ex_db_booked :: db where
  "ex_db_booked = \<lparr>trainings = [ex_group_hall],
                   bookings = [ex_booking\<lparr>booking_id := Some 1\<rparr>]\<rparr>"

text \<open>A booking without a time, for a session on which \<^verbatim>\<open>can_book\<close> raises.\<close>

definition ex_booking_no_time :: Booking where
  "ex_booking_no_time = \<lparr>booking_id = None, user = 2,
                         training = Some ex_personal_no_trainer, booking_time = None\<rparr>"

text \<open>A database that compares the timestamp with the two times by its time of day.\<close>

definition ex_in_range :: "pydatetime \<Rightarrow> pytime \<Rightarrow> pytime \<Rightarrow> bool" where
  "ex_in_range dt start_t end_t = (time_le start_t (timepart dt) \<and> time_le (timepart dt) end_t)"

lemmas ex_defs =
  hm_def ex_schedule_def ex_trainer_def ex_room_def ex_personal_def ex_group_def
  ex_free_def ex_personal_no_trainer_def ex_new_trainer_def ex_personal_no_schedule_def
  ex_db_def

lemmas can_book_defs =
  can_book_def as_time_def bookings_count_def in_hour_range_def same_group_trainings_def
  same_group_def in_break_def trainer_is_available_def ws_is_available_def time_le_def

section \<open>Properties\<close>

subsection \<open>The order on times\<close>

lemma time_le_refl: "time_le a a"
  by (simp add: time_le_def)

lemma time_le_total: "time_le a b \<or> time_le b a"
  by (auto simp: time_le_def)

lemma time_le_trans: "time_le a b \<Longrightarrow> time_le b c \<Longrightarrow> time_le a c"
  by (auto simp: time_le_def)

lemma time_le_antisym:
  "time_le a b \<Longrightarrow> time_le b a \<Longrightarrow>
   hour a = hour b \<and> minute a = minute b \<and> second a = second b \<and>
   microsecond a = microsecond b"
  by (auto simp: time_le_def)

subsection \<open>Availability\<close>

text \<open>The break is no concern of \<^verbatim>\<open>is_available\<close>: the trainer of the example is
  available from 12:00 to 13:00, which is the break.\<close>

lemma is_available_during_break:
  "trainer_is_available ex_trainer (break_start ex_schedule) (break_end ex_schedule)"
  by (simp add: trainer_is_available_def ws_is_available_def time_le_def ex_trainer_def
      ex_schedule_def hm_def)

text \<open>
  C7. \<^verbatim>\<open>WorkSchedule.is_available\<close> is true exactly when the work window contains
  the interval, and looks at no break; \<^verbatim>\<open>Trainer.is_available\<close> is false without a
  schedule and is the schedule's answer otherwise.
\<close>

theorem is_available_spec:
  "ws_is_available ws s e = (time_le (ws_start_time ws) s \<and> time_le e (ws_end_time ws)) \<and>
   ws_is_available (ws\<lparr>break_start := bs, break_end := be\<rparr>) s e = ws_is_available ws s e \<and>
   trainer_is_available (tr\<lparr>work_schedule := None\<rparr>) s e = False \<and>
   trainer_is_available (tr\<lparr>work_schedule := Some ws\<rparr>) s e = ws_is_available ws s e"
  by (simp add: ws_is_available_def trainer_is_available_def)

text \<open>
  C3. Whatever the training type, a time inside the break of the assigned trainer's
  schedule, both ends included, is refused: room, bookings and availability play no
  part.
\<close>

theorem can_book_in_break:
  assumes "trainer self = Some tr" and "work_schedule tr = Some ws"
    and "as_time fromisoformat arg = Inr t"
    and "time_le (break_start ws) t" and "time_le t (break_end ws)"
  shows "can_book fromisoformat d self arg = Inr False"
  using assms by (simp add: can_book_def in_break_def)

theorem can_book_in_break_witness:
  "trainer ex_personal = Some ex_trainer \<and> work_schedule ex_trainer = Some ex_schedule \<and>
   as_time Map.empty (TimeObj (hm 12 30)) = Inr (hm 12 30) \<and>
   time_le (break_start ex_schedule) (hm 12 30) \<and>
   time_le (hm 12 30) (break_end ex_schedule) \<and>
   can_book Map.empty ex_db ex_personal (TimeObj (hm 12 30)) = Inr False"
proof -
  have h1: "trainer ex_personal = Some ex_trainer"
    by (simp add: ex_personal_def)
  have h2: "work_schedule ex_trainer = Some ex_schedule"
    by (simp add: ex_trainer_def)
  have h3: "as_time Map.empty (TimeObj (hm 12 30)) = Inr (hm 12 30)"
    by (simp add: as_time_def)
  have h4: "time_le (break_start ex_schedule) (hm 12 30)"
    by (simp add: time_le_def ex_schedule_def hm_def)
  have h5: "time_le (hm 12 30) (break_end ex_schedule)"
    by (simp add: time_le_def ex_schedule_def hm_def)
  from can_book_in_break [OF h1 h2 h3 h4 h5] h1 h2 h3 h4 h5 show ?thesis
    by simp
qed

text \<open>
  C6. The count that \<^verbatim>\<open>can_book\<close> uses is the number of rows of the booking table
  that belong to this training and whose \<open>booking_time\<close> has its hour in
  \<open>[start_time.hour, end_time.hour]\<close>, both ends included. Minutes, seconds and the
  date are not looked at.
\<close>

theorem bookings_count_hour_range:
  "bookings_count d self =
     card {i. i < length (bookings d) \<and>
              (\<exists>dt. map_option training_id (training (bookings d ! i)) = Some (training_id self) \<and>
                    booking_time (bookings d ! i) = Some dt \<and>
                    hour (timepart dt) \<in> {hour (start_time self) .. hour (end_time self)})}"
proof -
  have "in_hour_range self b =
          (\<exists>dt. map_option training_id (training b) = Some (training_id self) \<and>
                booking_time b = Some dt \<and>
                hour (timepart dt) \<in> {hour (start_time self) .. hour (end_time self)})" for b
    by (cases "booking_time b") (auto simp: in_hour_range_def)
  then show ?thesis
    by (simp add: bookings_count_def length_filter_conv_card)
qed

text \<open>The bucket is coarser than the session: a booking at 11:59 counts for a session
  that ends at 11:00, one at 09:59 does not.\<close>

lemma bookings_count_coarse:
  "bookings_count
     \<lparr>trainings = [ex_free],
      bookings = [\<lparr>booking_id = Some 1, user = 1, training = Some ex_free,
                   booking_time = Some \<lparr>year = 2024, month = 5, day = 1, timepart = hm 11 59\<rparr>\<rparr>,
                  \<lparr>booking_id = Some 2, user = 2, training = Some ex_free,
                   booking_time = Some \<lparr>year = 2024, month = 5, day = 1, timepart = hm 9 59\<rparr>\<rparr>]\<rparr>
     ex_free = 1"
  by (simp add: bookings_count_def in_hour_range_def ex_free_def hm_def)

subsection \<open>The two dereferences in front of the branches\<close>

text \<open>With a time to test, \<^verbatim>\<open>can_book\<close> raises \<^verbatim>\<open>AttributeError\<close> exactly when the
  training has no trainer or its trainer has no schedule.\<close>

lemma can_book_attribute_error_iff:
  assumes "as_time fromisoformat arg = Inr t"
  shows "can_book fromisoformat d self arg = Inl AttributeError \<longleftrightarrow>
           trainer self = None \<or> (\<exists>tr. trainer self = Some tr \<and> work_schedule tr = None)"
  using assms by (auto simp: can_book_def Let_def split: option.splits)

lemma can_book_no_trainer:
  assumes "as_time fromisoformat arg = Inr t" and "trainer self = None"
  shows "can_book fromisoformat d self arg = Inl AttributeError"
  using assms by (simp add: can_book_def)

lemma can_book_returns:
  assumes "as_time fromisoformat arg = Inr t"
    and "trainer self = Some tr" and "work_schedule tr = Some ws"
  shows "\<exists>r. can_book fromisoformat d self arg = Inr r"
  using assms by (auto simp: can_book_def Let_def)

text \<open>
  C4. With a trainer assigned, \<^verbatim>\<open>can_book\<close> is to raise no null dereference. The
  code does: the trainer's schedule is a nullable reference too, and
  \<^verbatim>\<open>work_schedule.break_start\<close> raises for a trainer without one, although
  \<^verbatim>\<open>Trainer.is_available\<close> guards that very case. Here \<^verbatim>\<open>can_book\<close> is run on a
  personal session of a trainer whose profile has no schedule.
\<close>

theorem can_book_no_schedule_raises:
  "trainer ex_personal_no_schedule = Some ex_new_trainer \<and>
   work_schedule ex_new_trainer = None \<and>
   trainer_is_available ex_new_trainer (hm 10 0) (hm 11 0) = False \<and>
   can_book Map.empty ex_db ex_personal_no_schedule (TimeObj (hm 10 30)) = Inl AttributeError"
  by (simp add: can_book_def as_time_def trainer_is_available_def
      ex_personal_no_schedule_def ex_personal_def ex_new_trainer_def)

subsection \<open>Free sessions\<close>

text \<open>A free session that \<^verbatim>\<open>Training.clean\<close> accepts has no trainer, so \<^verbatim>\<open>can_book\<close>
  never reaches its branch for \<^verbatim>\<open>'SW'\<close>.\<close>

lemma clean_free_no_trainer:
  assumes "training_type self = ''SW''" and "training_clean self = Inr ()"
  shows "trainer self = None"
  using assms by (auto simp: training_clean_def split: if_splits)

lemma can_book_free_clean:
  assumes "training_type self = ''SW''" and "training_clean self = Inr ()"
    and "as_time fromisoformat arg = Inr t"
  shows "can_book fromisoformat d self arg = Inl AttributeError"
  using assms(3) clean_free_no_trainer [OF assms(1,2)] by (rule can_book_no_trainer)

text \<open>With a trainer and a schedule (which \<^verbatim>\<open>Training.clean\<close> refuses for a free
  session) the break still comes first.\<close>

lemma can_book_free_with_trainer:
  assumes "training_type self = ''SW''"
    and "trainer self = Some tr" and "work_schedule tr = Some ws"
    and "as_time fromisoformat arg = Inr t"
  shows "can_book fromisoformat d self arg =
           Inr (\<not> in_break ws t \<and> bookings_count d self < capacity (room self))"
  using assms by (simp add: can_book_def Let_def)

text \<open>
  C1. A free session is to be bookable exactly while the count is below the capacity
  of the room. The code does not do that: for the free session of the example data,
  valid, empty, in a room for two, \<^verbatim>\<open>can_book\<close> raises instead of returning true.
\<close>

theorem can_book_free_raises:
  "training_type ex_free = ''SW'' \<and> training_clean ex_free = Inr () \<and>
   bookings_count ex_db ex_free < capacity (room ex_free) \<and>
   can_book Map.empty ex_db ex_free (TimeObj (hm 10 30)) = Inl AttributeError"
  by (simp add: can_book_def as_time_def training_clean_def bookings_count_def
      ex_free_def ex_db_def)

subsection \<open>Personal sessions\<close>

text \<open>The scenario of the specification: a booking at 10:30 is accepted while the
  session has none, and one at 10:45 is refused once it has one.\<close>

lemma personal_scenario:
  "can_book Map.empty ex_db ex_personal (TimeObj (hm 10 30)) = Inr True \<and>
   can_book Map.empty
     (ex_db\<lparr>bookings := [\<lparr>booking_id = Some 1, user = 1, training = Some ex_personal,
                            booking_time = Some ex_when\<rparr>]\<rparr>)
     ex_personal (TimeObj (hm 10 45)) = Inr False"
  by (simp add: can_book_defs ex_defs ex_when_def)

lemma can_book_personal:
  assumes "training_type self = ''PT''"
    and "trainer self = Some tr" and "work_schedule tr = Some ws"
    and "as_time fromisoformat arg = Inr t" and "\<not> in_break ws t"
  shows "can_book fromisoformat d self arg =
           Inr (\<not> 0 < bookings_count d self \<and>
                trainer_is_available tr (start_time self) (end_time self) \<and>
                bookings_count d self < capacity (room self))"
  using assms by (simp add: can_book_def Let_def)

text \<open>
  C5. For a personal session without a trainer the answer is to be false. The test
  \<^verbatim>\<open>not self.trainer\<close> that would give it comes after \<^verbatim>\<open>self.trainer.work_schedule\<close>,
  which has raised by then.
\<close>

theorem can_book_personal_no_trainer_raises:
  "training_type ex_personal_no_trainer = ''PT'' \<and>
   trainer ex_personal_no_trainer = None \<and>
   can_book Map.empty ex_db ex_personal_no_trainer (TimeObj (hm 10 30)) = Inl AttributeError"
  by (simp add: can_book_def as_time_def ex_personal_no_trainer_def ex_personal_def)

subsection \<open>Group sessions\<close>

text \<open>A stored group session matches its own query.\<close>

lemma same_group_self:
  assumes "trainer self = Some tr"
  shows "same_group self tr self"
  using assms by (simp add: same_group_def time_le_def)

lemma stored_group_has_match:
  assumes "trainer self = Some tr" and "self \<in> set (trainings d)"
  shows "same_group_trainings d self tr \<noteq> []"
  using assms same_group_self [OF assms(1)]
  by (auto simp: same_group_trainings_def filter_empty_conv)

text \<open>
  C2, as the code has it. For a group session whose trainer is assigned and has a
  schedule, \<^verbatim>\<open>can_book\<close> is false in the break, false when the trainer is not
  available for the session, false when no row of the training table (the session's
  own row included) has the same trainer, the same group type and a window that
  contains the session; otherwise it is the capacity test.
\<close>

theorem can_book_group:
  assumes "training_type self = ''GT''"
    and "trainer self = Some tr" and "work_schedule tr = Some ws"
    and "as_time fromisoformat arg = Inr t"
  shows "can_book fromisoformat d self arg =
           Inr (\<not> in_break ws t \<and>
                trainer_is_available tr (start_time self) (end_time self) \<and>
                same_group_trainings d self tr \<noteq> [] \<and>
                bookings_count d self < capacity (room self))"
  using assms by (simp add: can_book_def Let_def)

theorem can_book_group_witness:
  "training_type ex_group = ''GT'' \<and> trainer ex_group = Some ex_trainer \<and>
   work_schedule ex_trainer = Some ex_schedule \<and>
   as_time Map.empty (TimeObj (hm 10 45)) = Inr (hm 10 45) \<and>
   can_book Map.empty ex_db ex_group (TimeObj (hm 10 45)) =
     Inr (\<not> in_break ex_schedule (hm 10 45) \<and>
          trainer_is_available ex_trainer (start_time ex_group) (end_time ex_group) \<and>
          same_group_trainings ex_db ex_group ex_trainer \<noteq> [] \<and>
          bookings_count ex_db ex_group < capacity (room ex_group))"
proof -
  have h1: "training_type ex_group = ''GT''"
    by (simp add: ex_group_def)
  have h2: "trainer ex_group = Some ex_trainer"
    by (simp add: ex_group_def)
  have h3: "work_schedule ex_trainer = Some ex_schedule"
    by (simp add: ex_trainer_def)
  have h4: "as_time Map.empty (TimeObj (hm 10 45)) = Inr (hm 10 45)"
    by (simp add: as_time_def)
  from can_book_group [OF h1 h2 h3 h4, of ex_db] h1 h2 h3 h4 show ?thesis
    by simp
qed

text \<open>
  C2, as the specification words it, fails: the group session of the example data has
  no other row with its trainer, its group type and a containing window, and
  \<^verbatim>\<open>can_book\<close> accepts a booking at 10:30.
\<close>

theorem lone_group_counterexample:
  "training_type ex_group = ''GT'' \<and> trainer ex_group = Some ex_trainer \<and>
   other_same_group ex_db ex_group ex_trainer = [] \<and>
   can_book Map.empty ex_db ex_group (TimeObj (hm 10 30)) = Inr True"
  by (simp add: can_book_defs other_same_group_def ex_defs)

section \<open>Properties of the listing\<close>

lemma get_available_trainings_always_raises:
  "get_available_trainings in_range d start_t = Inl FieldError"
  by (simp add: get_available_trainings_def resolve_lookup_def training_lookup_names_def)

text \<open>Under the name the relation has, the lookup resolves.\<close>

lemma resolve_training_bookings:
  "resolve_lookup ''training_bookings'' = Inr ''training_bookings''"
  by (simp add: resolve_lookup_def training_lookup_names_def)

text \<open>
  C8. The listing is to return the trainings that start at or after the given time,
  have no booking in their range and have seats left. The code does not get that
  far: on the example store, where the free session is such a training, the call
  raises \<^verbatim>\<open>FieldError\<close>, as it does on every store, because \<^verbatim>\<open>bookings\<close> is not a
  name of \<^verbatim>\<open>Training\<close>.
\<close>

theorem get_available_trainings_raises:
  "ex_free \<in> set (available_rows ex_in_range ex_db (hm 0 0)) \<and>
   get_available_trainings ex_in_range ex_db (hm 0 0) = Inl FieldError"
  by (simp add: get_available_trainings_def resolve_lookup_def training_lookup_names_def
      available_rows_def booked_in_range_def count_bookings_def ex_db_def ex_free_def
      time_le_def hm_def)

section \<open>Properties of the validation of a booking\<close>

lemma str_datetime_nonempty: "str_datetime dt \<noteq> []"
  by (simp add: str_datetime_def pad4_def)

text \<open>
  C10. A booking whose \<open>booking_time\<close> is \<open>None\<close> passes \<^verbatim>\<open>Booking.clean\<close> and the
  pre-save guard: neither calls \<^verbatim>\<open>can_book\<close>, whatever the store, the training (even
  none) and the parser are.
\<close>

theorem booking_without_time_passes:
  assumes "booking_time b = None"
  shows "booking_clean fromisoformat d b = Inr () \<and>
         check_booking_time fromisoformat d b = Inr ()"
  using assms by (simp add: booking_clean_def check_booking_time_def)

theorem booking_without_time_passes_witness:
  "booking_time ex_booking_no_time = None \<and>
   booking_clean Map.empty ex_db ex_booking_no_time = Inr () \<and>
   check_booking_time Map.empty ex_db ex_booking_no_time = Inr ()"
proof -
  have h: "booking_time ex_booking_no_time = None"
    by (simp add: ex_booking_no_time_def)
  from booking_without_time_passes [OF h] h show ?thesis
    by simp
qed

text \<open>With a time, the two entry points give what \<^verbatim>\<open>can_book\<close> gives for the string
  of that time.\<close>

lemma booking_with_time:
  assumes "booking_time b = Some dt" and "training b = Some t"
  shows "check_booking_time fromisoformat d b =
           (case can_book fromisoformat d t (IsoStr (str_datetime dt)) of
              Inl e \<Rightarrow> Inl e
            | Inr ok \<Rightarrow> if ok then Inr () else Inl ValidationError)"
    and "booking_clean fromisoformat d b = check_booking_time fromisoformat d b"
  using assms
  by (auto simp: check_booking_time_def booking_clean_def str_datetime_nonempty
      split: sum.splits)

section \<open>Properties of the store\<close>

lemma check_booking_time_training:
  assumes "check_booking_time fromisoformat d b = Inr u" and "booking_time b = Some dt"
  shows "training b \<noteq> None"
  using assms
  by (auto simp: check_booking_time_def str_datetime_nonempty split: option.splits)

text \<open>What a successful save has checked and written.\<close>

lemma save_booking_Inr:
  assumes "save_booking fromisoformat d b = Inr d'"
  shows "training b \<noteq> None \<and>
         \<not> unique_conflict (filter (\<lambda>r. booking_id r \<noteq> booking_id b) (bookings d)) b \<and>
         (\<exists>i. d' = d\<lparr>bookings := filter (\<lambda>r. booking_id r \<noteq> booking_id b) (bookings d) @
                                    [b\<lparr>booking_id := Some i\<rparr>]\<rparr>)"
proof -
  from assms obtain u where chk: "check_booking_time fromisoformat d b = Inr u"
    by (auto simp: save_booking_def split: sum.splits)
  from assms chk obtain dt where bt: "booking_time b = Some dt"
    by (auto simp: save_booking_def split: option.splits)
  have tr: "training b \<noteq> None"
    using chk bt by (rule check_booking_time_training)
  from assms chk bt show ?thesis
    using tr by (auto simp: save_booking_def Let_def split: if_splits)
qed

lemma save_booking_inv:
  assumes "save_booking fromisoformat d b = Inr d'" and "store_inv d"
  shows "store_inv d'"
proof -
  let ?others = "filter (\<lambda>r. booking_id r \<noteq> booking_id b) (bookings d)"
  from save_booking_Inr [OF assms(1)] obtain i where
    tr: "training b \<noteq> None" and
    nc: "\<not> unique_conflict ?others b" and
    d': "d' = d\<lparr>bookings := ?others @ [b\<lparr>booking_id := Some i\<rparr>]\<rparr>"
    by blast
  from nc tr have fresh: "booking_key b \<notin> booking_key ` set ?others"
    by (auto simp: unique_conflict_def list_ex_iff)
  from assms(2) have "distinct (map booking_key ?others)"
    by (simp add: store_inv_def distinct_map_filter)
  moreover have "booking_key (b\<lparr>booking_id := Some i\<rparr>) = booking_key b"
    by (simp add: booking_key_def)
  moreover from assms(2)
  have "list_all (\<lambda>r. training r \<noteq> None \<and> booking_id r \<noteq> None) ?others"
    by (simp add: store_inv_def list_all_iff)
  ultimately show ?thesis
    using fresh tr by (simp add: d' store_inv_def)
qed

lemma delete_booking_inv: "store_inv d \<Longrightarrow> store_inv (delete_booking d i)"
  by (simp add: store_inv_def delete_booking_def distinct_map_filter list_all_iff)

lemma save_training_inv: "save_training d t = Inr d' \<Longrightarrow> store_inv d \<Longrightarrow> store_inv d'"
  by (auto simp: store_inv_def save_training_def split: if_splits)

lemma delete_training_inv: "store_inv d \<Longrightarrow> store_inv (delete_training d i)"
  by (simp add: store_inv_def delete_training_def distinct_map_filter list_all_iff)

lemma reachable_inv: "reachable fromisoformat d \<Longrightarrow> store_inv d"
proof (induction rule: reachable.induct)
  case empty
  show ?case by (simp add: store_inv_def)
next
  case (booking_saved d b d')
  then show ?case by (blast intro: save_booking_inv)
next
  case (booking_deleted d i)
  from booking_deleted.IH show ?case by (rule delete_booking_inv)
next
  case (training_saved d t d')
  then show ?case by (blast intro: save_training_inv)
next
  case (training_deleted d i)
  from training_deleted.IH show ?case by (rule delete_training_inv)
qed

text \<open>Saving a booking whose pair another row already has fails, in any store.\<close>

lemma duplicate_write_fails:
  assumes "r \<in> set (bookings d)" and "booking_key r = booking_key b"
    and "booking_id r \<noteq> booking_id b"
  shows "\<exists>e. save_booking fromisoformat d b = Inl e"
proof (cases "save_booking fromisoformat d b")
  case (Inl e)
  then show ?thesis by blast
next
  case (Inr d')
  from save_booking_Inr [OF Inr] have tr: "training b \<noteq> None"
    and nc: "\<not> unique_conflict (filter (\<lambda>r. booking_id r \<noteq> booking_id b) (bookings d)) b"
    by blast+
  from assms have "unique_conflict (filter (\<lambda>r. booking_id r \<noteq> booking_id b) (bookings d)) b"
    using tr by (auto simp: unique_conflict_def list_ex_iff)
  with nc show ?thesis by blast
qed

text \<open>A booking without a time passes the guard and is then refused by the column.\<close>

lemma save_booking_without_time:
  assumes "booking_time b = None"
  shows "save_booking fromisoformat d b = Inl IntegrityError"
  using assms by (simp add: save_booking_def check_booking_time_def)

text \<open>
  C9. In every state the store can reach, no two booking rows have the same
  \<open>(user, training)\<close> pair, and saving a booking with the pair of another row fails.
\<close>

theorem unique_booking_per_user:
  assumes "reachable fromisoformat d"
  shows "distinct (map booking_key (bookings d)) \<and>
         (\<forall>b r. r \<in> set (bookings d) \<and> booking_key r = booking_key b \<and>
                booking_id r \<noteq> booking_id b \<longrightarrow>
                (\<exists>e. save_booking fromisoformat d b = Inl e))"
  using reachable_inv [OF assms] duplicate_write_fails
  by (auto simp: store_inv_def)

lemma ex_save_training:
  "save_training \<lparr>trainings = [], bookings = []\<rparr> ex_group_hall = Inr ex_db_hall"
  by (simp add: save_training_def ex_db_hall_def ex_group_hall_def ex_group_def
      time_lt_def time_le_def hm_def)

lemma ex_can_book:
  "can_book ex_fromisoformat ex_db_hall ex_group_hall (IsoStr (str_datetime ex_when)) = Inr True"
  by (simp add: can_book_defs ex_fromisoformat_def ex_db_hall_def ex_group_hall_def
      ex_group_def ex_hall_def ex_trainer_def ex_schedule_def hm_def ex_when_def)

lemma ex_save_booking:
  "save_booking ex_fromisoformat ex_db_hall ex_booking = Inr ex_db_booked"
  using ex_can_book
  by (simp add: save_booking_def check_booking_time_def str_datetime_nonempty ex_booking_def
      unique_conflict_def fresh_id_def ex_db_booked_def) (simp add: ex_db_hall_def)

lemma ex_reachable: "reachable ex_fromisoformat ex_db_booked"
  by (rule reachable.booking_saved [OF _ ex_save_booking],
      rule reachable.training_saved [OF _ ex_save_training],
      rule reachable.empty)

theorem unique_booking_per_user_witness:
  "reachable ex_fromisoformat ex_db_booked \<and>
   distinct (map booking_key (bookings ex_db_booked)) \<and>
   (\<exists>e. save_booking ex_fromisoformat ex_db_booked ex_booking = Inl e)"
proof -
  have stored: "ex_booking\<lparr>booking_id := Some 1\<rparr> \<in> set (bookings ex_db_booked)"
    by (simp add: ex_db_booked_def)
  have same: "booking_key (ex_booking\<lparr>booking_id := Some 1\<rparr>) = booking_key ex_booking"
    by (simp add: booking_key_def)
  have other: "booking_id (ex_booking\<lparr>booking_id := Some 1\<rparr>) \<noteq> booking_id ex_booking"
    by (simp add: ex_booking_def)
  from unique_booking_per_user [OF ex_reachable] stored same other ex_reachable
  show ?thesis by blast
qed

text \<open>In the example the second booking gets past the guard, the hall having a seat
  left, and it is the constraint that refuses it.\<close>

lemma ex_duplicate_refused:
  "check_booking_time ex_fromisoformat ex_db_booked ex_booking = Inr () \<and>
   save_booking ex_fromisoformat ex_db_booked ex_booking = Inl IntegrityError"
proof -
  have cb: "can_book ex_fromisoformat ex_db_booked ex_group_hall
              (IsoStr (str_datetime ex_when)) = Inr True"
    by (simp add: can_book_defs ex_fromisoformat_def ex_db_booked_def ex_group_hall_def
        ex_group_def ex_hall_def ex_trainer_def ex_schedule_def hm_def ex_when_def
        ex_booking_def)
  then have chk: "check_booking_time ex_fromisoformat ex_db_booked ex_booking = Inr ()"
    by (simp add: check_booking_time_def str_datetime_nonempty ex_booking_def)
  then show ?thesis
    by (simp add: save_booking_def Let_def unique_conflict_def booking_key_def
        ex_booking_def ex_db_booked_def)
qed

end
